theory Spec2Isabelle
  imports Complex_Main "HOL-Library.AList" "HOL-Library.Multiset"
begin

section \<open>JavaScript numbers under exact arithmetic\<close>

text \<open>
  The fee comparison of \<^verbatim>\<open>src/app/api/generate/route.ts\<close> computes with JavaScript
  numbers. The model reads them under exact arithmetic: a finite number is a real, there is
  no rounding, no overflow and a single zero. What exact arithmetic cannot hide is kept:
  a division by zero does not raise in JavaScript, it yields \<^verbatim>\<open>Infinity\<close>,
  \<^verbatim>\<open>-Infinity\<close> or \<^verbatim>\<open>NaN\<close>, and those values flow on through every later
  operation.
\<close>

datatype jsnum = Num real | PInf | NInf | NaN

instantiation jsnum :: comm_monoid_add
begin

definition zero_jsnum :: jsnum where
  "zero_jsnum = Num 0"

fun plus_jsnum :: "jsnum \<Rightarrow> jsnum \<Rightarrow> jsnum" where
  "plus_jsnum NaN y = NaN"
| "plus_jsnum x NaN = NaN"
| "plus_jsnum (Num a) (Num b) = Num (a + b)"
| "plus_jsnum PInf NInf = NaN"
| "plus_jsnum NInf PInf = NaN"
| "plus_jsnum PInf y = PInf"
| "plus_jsnum x PInf = PInf"
| "plus_jsnum NInf y = NInf"
| "plus_jsnum x NInf = NInf"

instance
proof (standard, goal_cases)
  case (1 x y z)
  show ?case by (cases x; cases y; cases z; simp)
next
  case (2 x y)
  show ?case by (cases x; cases y; simp)
next
  case (3 x)
  show ?case by (cases x; simp add: zero_jsnum_def)
qed

end

fun jneg :: "jsnum \<Rightarrow> jsnum" where
  "jneg (Num a) = Num (- a)"
| "jneg PInf = NInf"
| "jneg NInf = PInf"
| "jneg NaN = NaN"

definition jsub :: "jsnum \<Rightarrow> jsnum \<Rightarrow> jsnum" where
  "jsub x y = x + jneg y"

fun jmul :: "jsnum \<Rightarrow> jsnum \<Rightarrow> jsnum" where
  "jmul NaN y = NaN"
| "jmul x NaN = NaN"
| "jmul (Num a) (Num b) = Num (a * b)"
| "jmul (Num a) PInf = (if a = 0 then NaN else if 0 < a then PInf else NInf)"
| "jmul (Num a) NInf = (if a = 0 then NaN else if 0 < a then NInf else PInf)"
| "jmul PInf (Num b) = (if b = 0 then NaN else if 0 < b then PInf else NInf)"
| "jmul NInf (Num b) = (if b = 0 then NaN else if 0 < b then NInf else PInf)"
| "jmul PInf PInf = PInf"
| "jmul NInf NInf = PInf"
| "jmul PInf NInf = NInf"
| "jmul NInf PInf = NInf"

text \<open>
  Division is where the reals and JavaScript part: \<^verbatim>\<open>0 / 0\<close> is \<^verbatim>\<open>NaN\<close> and
  \<^verbatim>\<open>x / 0\<close> is an infinity with the sign of \<open>x\<close>.
\<close>

fun jdiv :: "jsnum \<Rightarrow> jsnum \<Rightarrow> jsnum" where
  "jdiv NaN y = NaN"
| "jdiv x NaN = NaN"
| "jdiv (Num a) (Num b) =
     (if b \<noteq> 0 then Num (a / b)
      else if a = 0 then NaN else if 0 < a then PInf else NInf)"
| "jdiv (Num a) PInf = Num 0"
| "jdiv (Num a) NInf = Num 0"
| "jdiv PInf (Num b) = (if 0 \<le> b then PInf else NInf)"
| "jdiv NInf (Num b) = (if 0 \<le> b then NInf else PInf)"
| "jdiv PInf y = NaN"
| "jdiv NInf y = NaN"

text \<open>The comparison \<^verbatim>\<open><=\<close>: false as soon as one side is \<^verbatim>\<open>NaN\<close>.\<close>

fun jle :: "jsnum \<Rightarrow> jsnum \<Rightarrow> bool" where
  "jle NaN y = False"
| "jle x NaN = False"
| "jle (Num a) (Num b) = (a \<le> b)"
| "jle NInf y = True"
| "jle x PInf = True"
| "jle PInf y = False"
| "jle x NInf = False"

text \<open>
  A value that is a number or \<^verbatim>\<open>undefined\<close> is a \<open>real option\<close>; in arithmetic
  \<^verbatim>\<open>undefined\<close> converts to \<^verbatim>\<open>NaN\<close>.
\<close>

fun toNumber :: "real option \<Rightarrow> jsnum" where
  "toNumber (Some x) = Num x"
| "toNumber None = NaN"

text \<open>
  The operator \<^verbatim>\<open>||\<close> returns its left operand when that is truthy and its right
  operand otherwise. A finite number is truthy unless it is \<open>0\<close>; \<^verbatim>\<open>undefined\<close> is
  falsy.
\<close>

fun js_or :: "real option \<Rightarrow> real option \<Rightarrow> real option" where
  "js_or (Some x) b = (if x \<noteq> 0 then Some x else b)"
| "js_or None b = b"

fun js_or_num :: "real option \<Rightarrow> real \<Rightarrow> real" where
  "js_or_num (Some x) d = (if x \<noteq> 0 then x else d)"
| "js_or_num None d = d"

section \<open>Data model\<close>

text \<open>
  \<^verbatim>\<open>BillingEntry\<close>: the optional \<^verbatim>\<open>yearsExperience?: number\<close> is an option.
\<close>

record BillingEntry =
  attorney :: string
  hours :: real
  rate :: real
  description :: string
  date :: string
  yearsExperience :: "real option"

text \<open>
  An element of \<^verbatim>\<open>GenerateRequest["attorneys"]\<close>; its \<^verbatim>\<open>yearsExperience\<close> field
  is \<open>att_yearsExperience\<close> here.
\<close>

record Attorney =
  name :: string
  att_yearsExperience :: real
  isParalegal :: bool

text \<open>
  \<^verbatim>\<open>GenerateRequest["laffeyMatrix"]\<close>. The request body is the parsed JSON, cast to
  its TypeScript type without a check, so a rate can be missing at run time: reading it
  gives \<^verbatim>\<open>undefined\<close>, here \<open>None\<close>.
\<close>

record LaffeyMatrix =
  tier1to3Rate :: "real option"
  tier4to7Rate :: "real option"
  tier8to10Rate :: "real option"
  tier11to19Rate :: "real option"
  tier20PlusRate :: "real option"
  paralegalRate :: "real option"

text \<open>
  The values of the \<^verbatim>\<open>byAttorney\<close> map
  (\<^verbatim>\<open>{ hours, billedRate, yearsExperience }\<close>).
\<close>

record AttorneyData =
  d_hours :: real
  d_billedRate :: jsnum
  d_yearsExperience :: real

text \<open>The elements of \<^verbatim>\<open>LaffeyComparisonResult["byAttorney"]\<close>.\<close>

record AttorneyRow =
  r_attorney :: string
  r_hours :: real
  r_billedRate :: jsnum
  r_laffeyRate :: "real option"
  r_billedAmount :: jsnum
  r_laffeyAmount :: jsnum

record LaffeyComparisonResult =
  totalBilled :: jsnum
  totalLaffey :: jsnum
  difference :: jsnum
  isUnderLaffey :: bool
  byAttorney :: "AttorneyRow list"

text \<open>
  The error kinds the specification names. Neither function below contains a
  \<^verbatim>\<open>throw\<close>, so no branch of the model produces one; they are here so that a claim
  about raising can be stated about the result \<open>error + 'a\<close>.
\<close>

datatype error = InvalidInput | IncompleteSchedule

section \<open>Tier resolution (\<^verbatim>\<open>src/lib/document-utils.ts\<close>)\<close>

definition getLaffeyTier :: "real \<Rightarrow> string" where
  "getLaffeyTier years =
     (if years \<le> 3 then ''tier1to3''
      else if years \<le> 7 then ''tier4to7''
      else if years \<le> 10 then ''tier8to10''
      else if years \<le> 19 then ''tier11to19''
      else ''tier20Plus'')"

definition calculateLaffeyRate :: "real \<Rightarrow> LaffeyMatrix \<Rightarrow> error + real option" where
  "calculateLaffeyRate years laffeyMatrix =
     (if years \<le> 3 then Inr (tier1to3Rate laffeyMatrix)
      else if years \<le> 7 then Inr (tier4to7Rate laffeyMatrix)
      else if years \<le> 10 then Inr (tier8to10Rate laffeyMatrix)
      else if years \<le> 19 then Inr (tier11to19Rate laffeyMatrix)
      else Inr (tier20PlusRate laffeyMatrix))"

section \<open>The comparison (\<^verbatim>\<open>calculateLaffeyComparison\<close>)\<close>

text \<open>
  \<^verbatim>\<open>entry.yearsExperience || attorneys?.find(a => a.name === entry.attorney)?.yearsExperience || 5\<close>
\<close>

definition yearsExp :: "BillingEntry \<Rightarrow> Attorney list option \<Rightarrow> real" where
  "yearsExp entry attorneys =
     js_or_num
       (js_or (yearsExperience entry)
          (case attorneys of
             None \<Rightarrow> None
           | Some as \<Rightarrow>
               map_option att_yearsExperience
                 (List.find (\<lambda>a. name a = attorney entry) as)))
       5"

text \<open>
  The \<^verbatim>\<open>Map\<close> iterates in insertion order, so it is an association list: a new key
  goes to the end, and the entry of an existing key is changed where it stands
  (\<open>AList.update\<close>).

  The body of the first loop. The division is JavaScript's: nothing tests
  \<^verbatim>\<open>totalHours\<close> before dividing by it.
\<close>

definition aggregate_step ::
  "BillingEntry \<Rightarrow> Attorney list option \<Rightarrow> (string \<times> AttorneyData) list
     \<Rightarrow> (string \<times> AttorneyData) list" where
  "aggregate_step entry attorneys byAtt =
     (case map_of byAtt (attorney entry) of
        Some existing \<Rightarrow>
          (let totalHours = d_hours existing + hours entry in
           AList.update (attorney entry)
             (existing\<lparr>d_billedRate :=
                  jdiv (jmul (d_billedRate existing) (Num (d_hours existing))
                        + Num (rate entry * hours entry))
                       (Num totalHours),
                d_hours := totalHours\<rparr>)
             byAtt)
      | None \<Rightarrow>
          byAtt @ [(attorney entry,
                    \<lparr>d_hours = hours entry, d_billedRate = Num (rate entry),
                     d_yearsExperience = yearsExp entry attorneys\<rparr>)])"

fun aggregate_loop ::
  "BillingEntry list \<Rightarrow> Attorney list option \<Rightarrow> (string \<times> AttorneyData) list
     \<Rightarrow> (string \<times> AttorneyData) list" where
  "aggregate_loop [] attorneys byAtt = byAtt"
| "aggregate_loop (entry # entries) attorneys byAtt =
     aggregate_loop entries attorneys (aggregate_step entry attorneys byAtt)"

text \<open>
  The second loop, over the map in insertion order, with its three accumulators
  \<^verbatim>\<open>result\<close>, \<^verbatim>\<open>totalBilled\<close> and \<^verbatim>\<open>totalLaffey\<close>. Were
  \<^verbatim>\<open>calculateLaffeyRate\<close> to raise, the loop would stop with that error.
\<close>

fun compare_loop ::
  "(string \<times> AttorneyData) list \<Rightarrow> LaffeyMatrix \<Rightarrow> AttorneyRow list \<Rightarrow> jsnum \<Rightarrow> jsnum
     \<Rightarrow> error + (AttorneyRow list \<times> jsnum \<times> jsnum)" where
  "compare_loop [] laffeyMatrix result accB accL = Inr (result, accB, accL)"
| "compare_loop ((att, data) # rest) laffeyMatrix result accB accL =
     (case calculateLaffeyRate (d_yearsExperience data) laffeyMatrix of
        Inl err \<Rightarrow> Inl err
      | Inr laffeyRate \<Rightarrow>
          (let billedAmount = jmul (Num (d_hours data)) (d_billedRate data);
               laffeyAmount = jmul (Num (d_hours data)) (toNumber laffeyRate)
           in compare_loop rest laffeyMatrix
                (result @ [\<lparr>r_attorney = att, r_hours = d_hours data,
                             r_billedRate = d_billedRate data, r_laffeyRate = laffeyRate,
                             r_billedAmount = billedAmount, r_laffeyAmount = laffeyAmount\<rparr>])
                (accB + billedAmount) (accL + laffeyAmount)))"

definition calculateLaffeyComparison ::
  "BillingEntry list \<Rightarrow> LaffeyMatrix \<Rightarrow> Attorney list option
     \<Rightarrow> error + LaffeyComparisonResult" where
  "calculateLaffeyComparison entries laffeyMatrix attorneys =
     (case compare_loop (aggregate_loop entries attorneys []) laffeyMatrix [] (Num 0) (Num 0) of
        Inl err \<Rightarrow> Inl err
      | Inr (result, accB, accL) \<Rightarrow>
          Inr \<lparr>totalBilled = accB, totalLaffey = accL, difference = jsub accL accB,
               isUnderLaffey = jle accB accL, byAttorney = result\<rparr>)"

section \<open>Auxiliary notions\<close>

text \<open>
  The row the second loop pushes for one map entry, and the value the first loop stores
  for an attorney given what the map held before (\<open>None\<close>: no aggregate yet).
\<close>

definition row_of :: "LaffeyMatrix \<Rightarrow> string \<times> AttorneyData \<Rightarrow> AttorneyRow" where
  "row_of m p =
     \<lparr>r_attorney = fst p, r_hours = d_hours (snd p), r_billedRate = d_billedRate (snd p),
      r_laffeyRate = projr (calculateLaffeyRate (d_yearsExperience (snd p)) m),
      r_billedAmount = jmul (Num (d_hours (snd p))) (d_billedRate (snd p)),
      r_laffeyAmount =
        jmul (Num (d_hours (snd p)))
          (toNumber (projr (calculateLaffeyRate (d_yearsExperience (snd p)) m)))\<rparr>"

definition step_data ::
  "BillingEntry \<Rightarrow> Attorney list option \<Rightarrow> AttorneyData option \<Rightarrow> AttorneyData" where
  "step_data entry attorneys old =
     (case old of
        Some existing \<Rightarrow>
          existing\<lparr>d_billedRate :=
              jdiv (jmul (d_billedRate existing) (Num (d_hours existing))
                    + Num (rate entry * hours entry))
                   (Num (d_hours existing + hours entry)),
            d_hours := d_hours existing + hours entry\<rparr>
      | None \<Rightarrow>
          \<lparr>d_hours = hours entry, d_billedRate = Num (rate entry),
           d_yearsExperience = yearsExp entry attorneys\<rparr>)"

text \<open>
  The schedule field that belongs to a tier label (\<^verbatim>\<open>laffeyMatrix[tier + "Rate"]\<close>):
  what "the schedule field of the resolved tier" refers to.
\<close>

definition tier_field :: "string \<Rightarrow> LaffeyMatrix \<Rightarrow> real option" where
  "tier_field tier m =
     (if tier = ''tier1to3'' then tier1to3Rate m
      else if tier = ''tier4to7'' then tier4to7Rate m
      else if tier = ''tier8to10'' then tier8to10Rate m
      else if tier = ''tier11to19'' then tier11to19Rate m
      else tier20PlusRate m)"

text \<open>The entries of one attorney, their hours and their fees, taken from the raw input.\<close>

definition entries_of :: "string \<Rightarrow> BillingEntry list \<Rightarrow> BillingEntry list" where
  "entries_of a es = filter (\<lambda>e. attorney e = a) es"

definition sum_hours :: "string \<Rightarrow> BillingEntry list \<Rightarrow> real" where
  "sum_hours a es = sum_list (map hours (entries_of a es))"

definition sum_fees :: "string \<Rightarrow> BillingEntry list \<Rightarrow> real" where
  "sum_fees a es = sum_list (map (\<lambda>e. hours e * rate e) (entries_of a es))"

text \<open>
  Inputs for the concrete runs: the rates the seed script stores for 2024-2025, and a
  billing entry with empty description and date.
\<close>

abbreviation laffey2024 :: LaffeyMatrix where
  "laffey2024 \<equiv>
     \<lparr>tier1to3Rate = Some 402, tier4to7Rate = Some 492, tier8to10Rate = Some 585,
      tier11to19Rate = Some 680, tier20PlusRate = Some 822, paralegalRate = Some 185\<rparr>"

abbreviation billing :: "string \<Rightarrow> real \<Rightarrow> real \<Rightarrow> real option \<Rightarrow> BillingEntry" where
  "billing a h x y \<equiv>
     \<lparr>attorney = a, hours = h, rate = x, description = [], date = [], yearsExperience = y\<rparr>"

section \<open>The two loops in closed form\<close>

text \<open>\<^verbatim>\<open>calculateLaffeyRate\<close> has no failing branch.\<close>

lemma calculateLaffeyRate_Inr:
  "calculateLaffeyRate y m = Inr (projr (calculateLaffeyRate y m))"
  by (simp add: calculateLaffeyRate_def)

lemma calculateLaffeyRate_tier_field:
  "calculateLaffeyRate y m = Inr (tier_field (getLaffeyTier y) m)"
  by (simp add: calculateLaffeyRate_def getLaffeyTier_def tier_field_def)

lemma compare_loop_eq:
  "compare_loop S m res b l =
     Inr (res @ map (row_of m) S,
          b + sum_list (map (\<lambda>p. r_billedAmount (row_of m p)) S),
          l + sum_list (map (\<lambda>p. r_laffeyAmount (row_of m p)) S))"
proof (induction S arbitrary: res b l)
  case Nil
  show ?case by simp
next
  case (Cons p S)
  obtain a d where p: "p = (a, d)" by (cases p)
  obtain v where v: "calculateLaffeyRate (d_yearsExperience d) m = Inr v"
    using calculateLaffeyRate_Inr by blast
  show ?case
    by (simp add: p v Cons.IH Let_def row_of_def add.assoc)
qed

lemma calculateLaffeyComparison_eq:
  "calculateLaffeyComparison es m r =
     (let rows = map (row_of m) (aggregate_loop es r []);
          b = sum_list (map r_billedAmount rows);
          l = sum_list (map r_laffeyAmount rows)
      in Inr \<lparr>totalBilled = b, totalLaffey = l, difference = jsub l b,
              isUnderLaffey = jle b l, byAttorney = rows\<rparr>)"
  by (simp add: calculateLaffeyComparison_def compare_loop_eq Let_def comp_def
        flip: zero_jsnum_def)

lemma aggregate_loop_snoc:
  "aggregate_loop (es @ [e]) r S = aggregate_step e r (aggregate_loop es r S)"
  by (induction es arbitrary: S) simp_all

lemma map_of_aggregate_step:
  "map_of (aggregate_step e r S) =
     (map_of S)(attorney e \<mapsto> step_data e r (map_of S (attorney e)))"
  by (auto simp: aggregate_step_def step_data_def Let_def AList.update_conv' fun_eq_iff
        map_add_def split: option.splits)

lemma distinct_aggregate_step:
  "distinct (map fst S) \<Longrightarrow> distinct (map fst (aggregate_step e r S))"
  by (auto simp: aggregate_step_def Let_def AList.distinct_update map_of_eq_None_iff
        split: option.splits)

lemma distinct_aggregate_loop:
  "distinct (map fst S) \<Longrightarrow> distinct (map fst (aggregate_loop es r S))"
  by (induction es arbitrary: S) (simp_all add: distinct_aggregate_step)

lemma distinct_aggregate: "distinct (aggregate_loop es r [])"
  using distinct_aggregate_loop [of "[]" es r] by (simp add: distinct_map)

section \<open>What the map holds for an attorney\<close>

lemma find_snoc:
  "List.find P (xs @ [x]) =
     (case List.find P xs of Some y \<Rightarrow> Some y | None \<Rightarrow> if P x then Some x else None)"
  by (induction xs) simp_all

lemma find_SomeD: "List.find P xs = Some x \<Longrightarrow> x \<in> set xs \<and> P x"
  by (induction xs) (auto split: if_splits)

lemma find_first:
  "P x \<Longrightarrow> \<forall>y\<in>set pre. \<not> P y \<Longrightarrow> List.find P (pre @ x # post) = Some x"
  by (induction pre) simp_all


lemma stored_years:
  "map_option d_yearsExperience (map_of (aggregate_loop es r []) a) =
     map_option (\<lambda>e. yearsExp e r) (List.find (\<lambda>e. attorney e = a) es)"
proof (induction es rule: rev_induct)
  case Nil
  show ?case by simp
next
  case (snoc e es)
  show ?case
    using snoc.IH
    by (cases "map_of (aggregate_loop es r []) a"; cases "List.find (\<lambda>e. attorney e = a) es")
       (auto simp: aggregate_loop_snoc map_of_aggregate_step find_snoc step_data_def)
qed

lemma stored_first:
  assumes "List.find (\<lambda>e. attorney e = a) es = Some e0"
  shows "\<exists>d. map_of (aggregate_loop es r []) a = Some d \<and> d_yearsExperience d = yearsExp e0 r"
  using stored_years [of es r a] assms by auto

lemma dom_aggregate_loop:
  "(map_of (aggregate_loop es r []) a = None) = (a \<notin> attorney ` set es)"
proof (induction es rule: rev_induct)
  case Nil
  show ?case by simp
next
  case (snoc e es)
  then show ?case
    by (auto simp: aggregate_loop_snoc map_of_aggregate_step)
qed

lemma keys_aggregate: "fst ` set (aggregate_loop es r []) = attorney ` set es"
proof -
  have "a \<in> fst ` set (aggregate_loop es r []) \<longleftrightarrow> a \<in> attorney ` set es" for a
    using dom_aggregate_loop [of es r a] by (simp add: map_of_eq_None_iff)
  then show ?thesis by blast
qed

lemma entries_of_snoc:
  "entries_of a (es @ [e]) = (if attorney e = a then entries_of a es @ [e] else entries_of a es)"
  by (simp add: entries_of_def)

lemma sum_list_pos:
  fixes f :: "'a \<Rightarrow> real"
  shows "xs \<noteq> [] \<Longrightarrow> (\<And>x. x \<in> set xs \<Longrightarrow> 0 < f x) \<Longrightarrow> 0 < sum_list (map f xs)"
proof (induction xs)
  case Nil
  then show ?case by simp
next
  case (Cons x xs)
  show ?case
  proof (cases "xs = []")
    case True
    then show ?thesis using Cons.prems(2) by simp
  next
    case False
    then have "0 < sum_list (map f xs)" using Cons by simp
    moreover have "0 < f x" using Cons.prems(2) by simp
    ultimately show ?thesis by simp
  qed
qed

lemma sum_hours_pos:
  assumes "\<forall>e\<in>set es. 0 < hours e" and "a \<in> attorney ` set es"
  shows "0 < sum_hours a es"
  unfolding sum_hours_def
proof (rule sum_list_pos)
  show "entries_of a es \<noteq> []"
    using assms(2) by (auto simp: entries_of_def filter_empty_conv)
  show "\<And>x. x \<in> set (entries_of a es) \<Longrightarrow> 0 < hours x"
    using assms(1) by (simp add: entries_of_def)
qed

text \<open>
  With strictly positive hours every denominator is positive, and the map holds for each
  attorney the sum of the hours, the quotient of fees and hours, and the years resolved at
  the first entry.
\<close>

lemma aggregate_data:
  assumes "\<forall>e\<in>set es. 0 < hours e"
  shows "map_of (aggregate_loop es r []) a =
           (if a \<in> attorney ` set es
            then Some \<lparr>d_hours = sum_hours a es,
                       d_billedRate = Num (sum_fees a es / sum_hours a es),
                       d_yearsExperience =
                         yearsExp (the (List.find (\<lambda>e. attorney e = a) es)) r\<rparr>
            else None)"
  using assms
proof (induction es rule: rev_induct)
  case Nil
  show ?case by simp
next
  case (snoc e es)
  have IH: "map_of (aggregate_loop es r []) a =
           (if a \<in> attorney ` set es
            then Some \<lparr>d_hours = sum_hours a es,
                       d_billedRate = Num (sum_fees a es / sum_hours a es),
                       d_yearsExperience =
                         yearsExp (the (List.find (\<lambda>e. attorney e = a) es)) r\<rparr>
            else None)"
    using snoc by simp
  have pos: "0 < hours e" using snoc.prems by simp
  show ?case
  proof (cases "attorney e = a")
    case False
    then show ?thesis
      using IH
      by (auto simp: aggregate_loop_snoc map_of_aggregate_step sum_hours_def sum_fees_def
            entries_of_snoc find_snoc split: option.splits)
  next
    case True
    show ?thesis
    proof (cases "a \<in> attorney ` set es")
      case False
      then have none: "List.find (\<lambda>e. attorney e = a) es = None"
        by (auto simp: find_None_iff)
      have empty: "entries_of a es = []"
        using False by (auto simp: entries_of_def filter_empty_conv)
      show ?thesis
        using IH False True pos
        by (simp add: aggregate_loop_snoc map_of_aggregate_step step_data_def
              sum_hours_def sum_fees_def entries_of_snoc empty find_snoc none)
    next
      case in_es: True
      then obtain e0 where some: "List.find (\<lambda>e. attorney e = a) es = Some e0"
        by (cases "List.find (\<lambda>e. attorney e = a) es") (auto simp: find_None_iff)
      have H: "0 < sum_hours a es"
        using snoc.prems in_es by (intro sum_hours_pos) auto
      have sh: "sum_hours a (es @ [e]) = sum_hours a es + hours e"
        and sf: "sum_fees a (es @ [e]) = sum_fees a es + hours e * rate e"
        using True by (simp_all add: sum_hours_def sum_fees_def entries_of_snoc)
      have ne: "sum_hours a es + hours e \<noteq> 0" using H pos by simp
      show ?thesis
        using IH in_es True H ne
        by (simp add: aggregate_loop_snoc map_of_aggregate_step step_data_def sh sf
              find_snoc some mult.commute)
    qed
  qed
qed

section \<open>Reordering the entries\<close>

lemma sum_list_filter_mset:
  fixes f :: "'a \<Rightarrow> real"
  assumes "mset xs = mset ys"
  shows "sum_list (map f (filter P xs)) = sum_list (map f (filter P ys))"
proof -
  have "mset (map f (filter P xs)) = mset (map f (filter P ys))"
    using assms by simp
  then show ?thesis
    by (metis sum_mset_sum_list)
qed

lemma sum_hours_mset: "mset es' = mset es \<Longrightarrow> sum_hours a es' = sum_hours a es"
  unfolding sum_hours_def entries_of_def by (rule sum_list_filter_mset)

lemma sum_fees_mset: "mset es' = mset es \<Longrightarrow> sum_fees a es' = sum_fees a es"
  unfolding sum_fees_def entries_of_def by (rule sum_list_filter_mset)

lemma find_the_in:
  assumes "a \<in> attorney ` set es"
  shows "the (List.find (\<lambda>e. attorney e = a) es) \<in> set es
     \<and> attorney (the (List.find (\<lambda>e. attorney e = a) es)) = a"
proof (cases "List.find (\<lambda>e. attorney e = a) es")
  case None
  then show ?thesis using assms by (auto simp: find_None_iff)
next
  case (Some e0)
  then show ?thesis using find_SomeD [OF Some] by simp
qed

lemma aggregate_perm:
  assumes perm: "mset es' = mset es"
    and pos: "\<forall>e\<in>set es. 0 < hours e"
    and same: "\<forall>e\<in>set es. \<forall>e'\<in>set es. attorney e = attorney e' \<longrightarrow> yearsExp e r = yearsExp e' r"
  shows "set (aggregate_loop es' r []) = set (aggregate_loop es r [])"
proof -
  have sets: "set es' = set es" using perm by (rule mset_eq_setD)
  have pos': "\<forall>e\<in>set es'. 0 < hours e" using pos sets by simp
  have "map_of (aggregate_loop es' r []) a = map_of (aggregate_loop es r []) a" for a
  proof (cases "a \<in> attorney ` set es")
    case False
    then show ?thesis
      using sets by (simp add: aggregate_data [OF pos] aggregate_data [OF pos'])
  next
    case True
    have "yearsExp (the (List.find (\<lambda>e. attorney e = a) es')) r
            = yearsExp (the (List.find (\<lambda>e. attorney e = a) es)) r"
      using find_the_in [of a es] find_the_in [of a es'] True sets same by metis
    then show ?thesis
      using True sets
      by (simp add: aggregate_data [OF pos] aggregate_data [OF pos']
            sum_hours_mset [OF perm] sum_fees_mset [OF perm])
  qed
  then have "map_of (aggregate_loop es' r []) = map_of (aggregate_loop es r [])"
    by (rule ext)
  then show ?thesis
    by (simp add: map_of_inject_set distinct_aggregate_loop)
qed

lemma sum_list_set_eq:
  fixes g :: "'a \<Rightarrow> jsnum"
  assumes "distinct xs" and "distinct ys" and "set xs = set ys"
  shows "sum_list (map g xs) = sum_list (map g ys)"
  using assms by (simp add: sum_list_distinct_conv_sum_set)

section \<open>Sums of JavaScript numbers\<close>

lemma sum_list_Num:
  "(\<And>x. x \<in> set xs \<Longrightarrow> g x = Num (f x)) \<Longrightarrow> sum_list (map g xs) = Num (sum_list (map f xs))"
  by (induction xs) (simp_all add: zero_jsnum_def)

lemma sum_list_NaN: "NaN \<in> set xs \<Longrightarrow> sum_list xs = NaN"
proof (induction xs)
  case Nil
  then show ?case by simp
next
  case (Cons x xs)
  show ?case
  proof (cases "x = NaN")
    case True
    then show ?thesis by simp
  next
    case False
    then have "sum_list xs = NaN" using Cons by auto
    then show ?thesis by (cases x) simp_all
  qed
qed

lemma jle_NaN_right: "jle x NaN = False"
  by (cases x) simp_all

section \<open>Billed total and direct sum\<close>

lemma group_sum:
  fixes f :: "BillingEntry \<Rightarrow> real"
  assumes "finite A" and "attorney ` set es \<subseteq> A"
  shows "(\<Sum>a\<in>A. sum_list (map f (entries_of a es))) = sum_list (map f es)"
  using assms(2)
proof (induction es)
  case Nil
  show ?case by (simp add: entries_of_def)
next
  case (Cons e es)
  have "(\<Sum>a\<in>A. sum_list (map f (entries_of a (e # es))))
          = (\<Sum>a\<in>A. (if a = attorney e then f e else 0) + sum_list (map f (entries_of a es)))"
    by (intro sum.cong) (auto simp: entries_of_def)
  also have "\<dots> = (\<Sum>a\<in>A. if a = attorney e then f e else 0)
                    + (\<Sum>a\<in>A. sum_list (map f (entries_of a es)))"
    by (rule sum.distrib)
  also have "(\<Sum>a\<in>A. if a = attorney e then f e else 0) = f e"
    using assms(1) Cons.prems by (simp add: sum.delta)
  finally show ?case using Cons by simp
qed

text \<open>
  As long as no division of the first loop has a zero denominator, the stored rate is a
  number whose product with the stored hours is the sum of the fees, whatever the sign of
  the hours.
\<close>

lemma aggregate_fees:
  assumes "\<forall>n<length es. attorney (es ! n) \<in> attorney ` set (take n es)
             \<longrightarrow> sum_hours (attorney (es ! n)) (take (Suc n) es) \<noteq> 0"
    and "a \<in> attorney ` set es"
  shows "\<exists>d x. map_of (aggregate_loop es r []) a = Some d \<and> d_hours d = sum_hours a es
           \<and> d_billedRate d = Num x \<and> sum_hours a es * x = sum_fees a es"
  using assms
proof (induction es rule: rev_induct)
  case Nil
  then show ?case by simp
next
  case (snoc e es)
  have nz: "\<forall>n<length es. attorney (es ! n) \<in> attorney ` set (take n es)
             \<longrightarrow> sum_hours (attorney (es ! n)) (take (Suc n) es) \<noteq> 0"
  proof (intro allI impI)
    fix n assume n: "n < length es" and "attorney (es ! n) \<in> attorney ` set (take n es)"
    then show "sum_hours (attorney (es ! n)) (take (Suc n) es) \<noteq> 0"
      using snoc.prems(1) [rule_format, of n] by (simp add: nth_append)
  qed
  have last: "attorney e \<in> attorney ` set es \<Longrightarrow> sum_hours (attorney e) (es @ [e]) \<noteq> 0"
    using snoc.prems(1) [rule_format, of "length es"] by simp
  show ?case
  proof (cases "attorney e = a")
    case False
    then have "a \<in> attorney ` set es" using snoc.prems(2) by auto
    from snoc.IH [OF nz this] False show ?thesis
      by (auto simp: aggregate_loop_snoc map_of_aggregate_step sum_hours_def sum_fees_def
            entries_of_snoc)
  next
    case True
    show ?thesis
    proof (cases "a \<in> attorney ` set es")
      case False
      then have none: "map_of (aggregate_loop es r []) a = None"
        by (simp add: dom_aggregate_loop)
      have empty: "entries_of a es = []"
        using False by (auto simp: entries_of_def filter_empty_conv)
      show ?thesis
        using True none
        by (simp add: aggregate_loop_snoc map_of_aggregate_step step_data_def
              sum_hours_def sum_fees_def entries_of_snoc empty)
    next
      case in_es: True
      from snoc.IH [OF nz in_es] obtain d x where d: "map_of (aggregate_loop es r []) a = Some d"
        "d_hours d = sum_hours a es" "d_billedRate d = Num x" "sum_hours a es * x = sum_fees a es"
        by blast
      have sh: "sum_hours a (es @ [e]) = sum_hours a es + hours e"
        and sf: "sum_fees a (es @ [e]) = sum_fees a es + hours e * rate e"
        using True by (simp_all add: sum_hours_def sum_fees_def entries_of_snoc)
      have ne: "sum_hours a es + hours e \<noteq> 0"
        using last in_es True sh by simp
      show ?thesis
        using True d ne
        by (simp add: aggregate_loop_snoc map_of_aggregate_step step_data_def sh sf
              mult.commute)
    qed
  qed
qed

lemma totalBilled_direct_sum:
  assumes nz: "\<forall>n<length es. attorney (es ! n) \<in> attorney ` set (take n es)
             \<longrightarrow> sum_hours (attorney (es ! n)) (take (Suc n) es) \<noteq> 0"
  shows "\<exists>res. calculateLaffeyComparison es m r = Inr res
           \<and> totalBilled res = Num (sum_list (map (\<lambda>e. hours e * rate e) es))"
proof -
  define S where "S = aggregate_loop es r []"
  have dist: "distinct (map fst S)"
    unfolding S_def using distinct_aggregate_loop [of "[]" es r] by simp
  have each: "r_billedAmount (row_of m p) = Num (sum_fees (fst p) es)" if "p \<in> set S" for p
  proof -
    have "map_of S (fst p) = Some (snd p)" using that dist by simp
    moreover have "fst p \<in> attorney ` set es"
      using that keys_aggregate [of es r] unfolding S_def by force
    ultimately obtain x where "d_hours (snd p) = sum_hours (fst p) es"
      "d_billedRate (snd p) = Num x" "sum_hours (fst p) es * x = sum_fees (fst p) es"
      using aggregate_fees [OF nz, of "fst p" r] unfolding S_def by auto
    then show ?thesis
      by (simp add: row_of_def)
  qed
  have "sum_list (map (\<lambda>p. r_billedAmount (row_of m p)) S)
          = Num (sum_list (map (\<lambda>p. sum_fees (fst p) es) S))"
    using each by (rule sum_list_Num)
  also have "sum_list (map (\<lambda>p. sum_fees (fst p) es) S)
          = sum_list (map (\<lambda>a. sum_fees a es) (map fst S))"
    by (simp add: comp_def)
  also have "\<dots> = (\<Sum>a\<in>set (map fst S). sum_fees a es)"
    using dist by (rule sum_list_distinct_conv_sum_set)
  also have "\<dots> = sum_list (map (\<lambda>e. hours e * rate e) es)"
    unfolding sum_fees_def
    by (rule group_sum) (simp_all add: S_def keys_aggregate)
  finally show ?thesis
    by (simp add: calculateLaffeyComparison_eq Let_def comp_def S_def)
qed

section \<open>Entries with zero hours\<close>

lemma jdiv_jmul_cancel: "h \<noteq> 0 \<Longrightarrow> jdiv (jmul x (Num h) + Num 0) (Num h) = x"
  by (cases x) auto

lemma zero_hours_noop:
  assumes "map_of S (attorney e) = Some existing" and "hours e = 0" and "d_hours existing \<noteq> 0"
  shows "aggregate_step e r S = S"
  using assms
  by (simp add: aggregate_step_def Let_def jdiv_jmul_cancel AList.update_triv)

lemma zero_over_zero:
  assumes "map_of S (attorney e) = Some existing" and "hours e = 0" and "d_hours existing = 0"
  shows "map_of (aggregate_step e r S) (attorney e) = Some (existing\<lparr>d_billedRate := NaN\<rparr>)"
  using assms
  by (cases existing; cases "d_billedRate existing")
     (simp_all add: map_of_aggregate_step step_data_def)

section \<open>The resolved years of experience\<close>

lemma yearsExp_precedence:
  "yearsExp e r =
     (case yearsExperience e of
        Some y \<Rightarrow> if y \<noteq> 0 then y else
           (case r of None \<Rightarrow> 5 | Some as \<Rightarrow>
              (case List.find (\<lambda>a. name a = attorney e) as of
                 None \<Rightarrow> 5 | Some a \<Rightarrow> if att_yearsExperience a \<noteq> 0 then att_yearsExperience a else 5))
      | None \<Rightarrow>
           (case r of None \<Rightarrow> 5 | Some as \<Rightarrow>
              (case List.find (\<lambda>a. name a = attorney e) as of
                 None \<Rightarrow> 5 | Some a \<Rightarrow> if att_yearsExperience a \<noteq> 0 then att_yearsExperience a else 5)))"
  by (simp add: yearsExp_def split: option.splits)

lemmas run = calculateLaffeyComparison_def aggregate_step_def yearsExp_def calculateLaffeyRate_def jsub_def Let_def


lemma totalBilled_positive_hours:
  assumes pos: "\<forall>e\<in>set es. 0 < hours e"
  shows "\<exists>res. calculateLaffeyComparison es m r = Inr res
           \<and> totalBilled res = Num (sum_list (map (\<lambda>e. hours e * rate e) es))"
proof (rule totalBilled_direct_sum, intro allI impI)
  fix n assume n: "n < length es"
  have "set (take (Suc n) es) \<subseteq> set es" by (rule set_take_subset)
  then have "\<forall>e\<in>set (take (Suc n) es). 0 < hours e" using pos by blast
  moreover have "attorney (es ! n) \<in> attorney ` set (take (Suc n) es)"
    using n by (simp add: take_Suc_conv_app_nth)
  ultimately have "0 < sum_hours (attorney (es ! n)) (take (Suc n) es)"
    by (rule sum_hours_pos)
  then show "sum_hours (attorney (es ! n)) (take (Suc n) es) \<noteq> 0" by simp
qed

section \<open>Difference, flag and billing at the benchmark\<close>

text \<open>
  The two derived fields of every result, and the case where every entry is billed at the
  benchmark rate of its attorney (the rate of the years stored at the attorney's first
  entry), for strictly positive hours.
\<close>

lemma difference_and_flag_fields:
  "\<exists>res. calculateLaffeyComparison es m r = Inr res
     \<and> difference res = jsub (totalLaffey res) (totalBilled res)
     \<and> isUnderLaffey res = jle (totalBilled res) (totalLaffey res)"
  by (simp add: calculateLaffeyComparison_eq Let_def)

lemma rows_at_benchmark:
  assumes "\<forall>p\<in>set S. \<exists>b. d_billedRate (snd p) = Num b
             \<and> calculateLaffeyRate (d_yearsExperience (snd p)) m = Inr (Some b)"
  shows "\<exists>x. sum_list (map (\<lambda>p. r_billedAmount (row_of m p)) S) = Num x
           \<and> sum_list (map (\<lambda>p. r_laffeyAmount (row_of m p)) S) = Num x"
proof -
  define f where "f p = d_hours (snd p) * the (r_laffeyRate (row_of m p))" for p
  have "r_billedAmount (row_of m p) = Num (f p) \<and> r_laffeyAmount (row_of m p) = Num (f p)"
    if "p \<in> set S" for p
    using assms that by (auto simp: row_of_def f_def)
  then show ?thesis by (simp add: sum_list_Num)
qed

lemma sum_fees_constant_rate:
  assumes "\<forall>e\<in>set es. attorney e = a \<longrightarrow> rate e = b"
  shows "sum_fees a es = sum_hours a es * b"
  using assms
  by (induction es) (simp_all add: sum_fees_def sum_hours_def entries_of_def algebra_simps)

lemma at_benchmark_positive_hours:
  assumes pos: "\<forall>e\<in>set es. 0 < hours e"
    and bench: "\<forall>e\<in>set es.
        calculateLaffeyRate (yearsExp (the (List.find (\<lambda>x. attorney x = attorney e) es)) r) m
          = Inr (Some (rate e))"
  shows "\<exists>res. calculateLaffeyComparison es m r = Inr res
           \<and> difference res = Num 0 \<and> isUnderLaffey res"
proof -
  define S where "S = aggregate_loop es r []"
  have dist: "distinct (map fst S)"
    unfolding S_def using distinct_aggregate_loop [of "[]" es r] by simp
  have "\<exists>b. d_billedRate (snd p) = Num b
          \<and> calculateLaffeyRate (d_yearsExperience (snd p)) m = Inr (Some b)"
    if p: "p \<in> set S" for p
  proof -
    define a where "a = fst p"
    define y where "y = yearsExp (the (List.find (\<lambda>x. attorney x = a) es)) r"
    have look: "map_of S a = Some (snd p)" using p dist by (simp add: a_def)
    have in_es: "a \<in> attorney ` set es"
      using p keys_aggregate [of es r] unfolding S_def a_def by force
    then obtain e1 where e1: "e1 \<in> set es" "attorney e1 = a" by auto
    define b where "b = rate e1"
    have yb: "calculateLaffeyRate y m = Inr (Some b)"
      using bench e1 by (auto simp: y_def b_def)
    have "rate e = b" if "e \<in> set es" "attorney e = a" for e
      using bench that yb by (auto simp: y_def)
    then have fees: "sum_fees a es = sum_hours a es * b"
      by (intro sum_fees_constant_rate) auto
    have H: "0 < sum_hours a es" using pos in_es by (rule sum_hours_pos)
    have "snd p = \<lparr>d_hours = sum_hours a es,
                   d_billedRate = Num (sum_fees a es / sum_hours a es),
                   d_yearsExperience = y\<rparr>"
      using look in_es by (simp add: S_def aggregate_data [OF pos] y_def)
    then show ?thesis
      using fees H yb by auto
  qed
  then obtain x where "sum_list (map (\<lambda>p. r_billedAmount (row_of m p)) S) = Num x"
      "sum_list (map (\<lambda>p. r_laffeyAmount (row_of m p)) S) = Num x"
    using rows_at_benchmark [of S m] by blast
  then show ?thesis
    by (simp add: calculateLaffeyComparison_eq Let_def comp_def jsub_def flip: S_def)
qed

lemma benchmark_scenario:
  "calculateLaffeyComparison
     [billing ''J'' 10 402 (Some 3), billing ''V'' 10 822 (Some 22)] laffey2024 None
   = Inr \<lparr>totalBilled = Num 12240, totalLaffey = Num 12240, difference = Num 0,
          isUnderLaffey = True,
          byAttorney =
            [\<lparr>r_attorney = ''J'', r_hours = 10, r_billedRate = Num 402,
              r_laffeyRate = Some 402, r_billedAmount = Num 4020, r_laffeyAmount = Num 4020\<rparr>,
             \<lparr>r_attorney = ''V'', r_hours = 10, r_billedRate = Num 822,
              r_laffeyRate = Some 822, r_billedAmount = Num 8220, r_laffeyAmount = Num 8220\<rparr>]\<rparr>"
  by (simp add: run)

section \<open>Claims\<close>

subsection \<open>Billed total against the direct sum\<close>

text \<open>
  C1. The claim: for every non-empty entry list with non-negative hours, \<open>totalBilled\<close>
  is the sum of \<open>hours * rate\<close> over the raw entries. The code breaks it where an
  attorney's first two entries both have zero hours: the running average divides
  \<open>0\<close> by \<open>0\<close>, the blended rate becomes \<^verbatim>\<open>NaN\<close> and so does \<open>totalBilled\<close>, while the
  direct sum is \<open>0\<close>. Lemma \<open>totalBilled_direct_sum\<close> above shows the claim on every list
  whose divisions all have a non-zero denominator, lemma \<open>totalBilled_positive_hours\<close> on
  every list with strictly positive hours.
\<close>

theorem totalBilled_zero_hours_NaN:
  "calculateLaffeyComparison [billing ''A'' 0 100 None, billing ''A'' 0 200 None] laffey2024 None
     = Inr \<lparr>totalBilled = NaN, totalLaffey = Num 0, difference = NaN, isUnderLaffey = False,
            byAttorney = [\<lparr>r_attorney = ''A'', r_hours = 0, r_billedRate = NaN,
                r_laffeyRate = Some 492, r_billedAmount = NaN, r_laffeyAmount = Num 0\<rparr>]\<rparr>
   \<and> sum_list (map (\<lambda>e. hours e * rate e) [billing ''A'' 0 100 None, billing ''A'' 0 200 None]) = 0"
  by (simp add: run)

subsection \<open>Tier boundaries\<close>

text \<open>
  C2. For a non-negative integer number of years, the tier and the rate follow the
  inclusive upper bounds 3, 7, 10 and 19 in ascending order: 0-3 gives
  \<^verbatim>\<open>tier1to3\<close> (the specification's junior tier) and \<open>tier1to3Rate\<close>, 4-7 gives
  \<^verbatim>\<open>tier4to7\<close> (mid), 8-10 gives \<^verbatim>\<open>tier8to10\<close> (senior), 11-19 gives
  \<^verbatim>\<open>tier11to19\<close> (principal) and 20 or more gives \<^verbatim>\<open>tier20Plus\<close> (veteran).
  Years 0 and 3 share a tier, 3 and 4 do not, and 20 and 100 both give the last tier.
\<close>

theorem tier_boundaries:
  fixes n :: nat
  shows "(n \<le> 3 \<longrightarrow> getLaffeyTier (real n) = ''tier1to3''
            \<and> calculateLaffeyRate (real n) m = Inr (tier1to3Rate m))
       \<and> (4 \<le> n \<and> n \<le> 7 \<longrightarrow> getLaffeyTier (real n) = ''tier4to7''
            \<and> calculateLaffeyRate (real n) m = Inr (tier4to7Rate m))
       \<and> (8 \<le> n \<and> n \<le> 10 \<longrightarrow> getLaffeyTier (real n) = ''tier8to10''
            \<and> calculateLaffeyRate (real n) m = Inr (tier8to10Rate m))
       \<and> (11 \<le> n \<and> n \<le> 19 \<longrightarrow> getLaffeyTier (real n) = ''tier11to19''
            \<and> calculateLaffeyRate (real n) m = Inr (tier11to19Rate m))
       \<and> (20 \<le> n \<longrightarrow> getLaffeyTier (real n) = ''tier20Plus''
            \<and> calculateLaffeyRate (real n) m = Inr (tier20PlusRate m))
       \<and> getLaffeyTier 0 = getLaffeyTier 3
       \<and> getLaffeyTier 3 \<noteq> getLaffeyTier 4
       \<and> getLaffeyTier 20 = ''tier20Plus'' \<and> getLaffeyTier 100 = ''tier20Plus''"
  by (auto simp: getLaffeyTier_def calculateLaffeyRate_def)

theorem tier_boundaries_witness:
  "(4::nat) \<le> 5 \<and> (5::nat) \<le> 7 \<and> getLaffeyTier (real 5) = ''tier4to7''
     \<and> calculateLaffeyRate (real 5) laffey2024 = Inr (Some 492)"
  using tier_boundaries [of 5 laffey2024]
  by simp

subsection \<open>Difference and flag\<close>

text \<open>
  C3. The claim: every result has \<open>difference = totalLaffey - totalBilled\<close> and
  \<open>isUnderLaffey\<close> exactly when \<open>totalBilled <= totalLaffey\<close>, and when every attorney
  bills exactly at the benchmark rate of the attorney's tier the difference is \<open>0\<close> and
  the flag is true. The two fields are computed as claimed (lemma
  \<open>difference_and_flag_fields\<close> above), and the particular case holds for strictly
  positive hours (lemma \<open>at_benchmark_positive_hours\<close>, the specification's scenario in
  \<open>benchmark_scenario\<close>). The code breaks the particular case where an attorney's first
  two entries both have zero hours: here every entry is billed at its benchmark rate, 402
  for 3 years and 822 for 22 years, the blended rate of \<open>J\<close> is \<open>0 / 0\<close>, and the result
  has \<open>difference\<close> \<^verbatim>\<open>NaN\<close> and the flag false.
\<close>

theorem at_benchmark_zero_hours_NaN:
  "calculateLaffeyRate 3 laffey2024 = Inr (Some 402)
   \<and> calculateLaffeyRate 22 laffey2024 = Inr (Some 822)
   \<and> calculateLaffeyComparison
        [billing ''J'' 0 402 (Some 3), billing ''J'' 0 402 (Some 3), billing ''V'' 10 822 (Some 22)]
        laffey2024 None
     = Inr \<lparr>totalBilled = NaN, totalLaffey = Num 8220, difference = NaN,
            isUnderLaffey = False,
            byAttorney =
              [\<lparr>r_attorney = ''J'', r_hours = 0, r_billedRate = NaN,
                r_laffeyRate = Some 402, r_billedAmount = NaN, r_laffeyAmount = Num 0\<rparr>,
               \<lparr>r_attorney = ''V'', r_hours = 10, r_billedRate = Num 822,
                r_laffeyRate = Some 822, r_billedAmount = Num 8220,
                r_laffeyAmount = Num 8220\<rparr>]\<rparr>"
  by (simp add: run)

subsection \<open>Resolution of the years of experience\<close>

text \<open>
  C4. The claim: the entry's own \<open>yearsExperience\<close> is used whenever it is present,
  also when it is \<open>0\<close>; otherwise the roster's; otherwise \<open>5\<close>. The code chains the three
  with \<^verbatim>\<open>||\<close>, which skips a \<open>0\<close> as it skips a missing value: an entry that carries
  \<open>0\<close> years resolves to the default \<open>5\<close>, or to the roster's value, and is compared
  against the \<^verbatim>\<open>tier4to7\<close> rate. Lemma \<open>yearsExp_precedence\<close> above gives the order
  the code follows.
\<close>

theorem yearsExp_zero_is_skipped:
  "yearsExp (billing ''A'' 10 400 (Some 0)) None = 5
   \<and> yearsExp (billing ''A'' 10 400 (Some 0))
        (Some [\<lparr>name = ''A'', att_yearsExperience = 12, isParalegal = False\<rparr>]) = 12
   \<and> calculateLaffeyComparison [billing ''A'' 10 400 (Some 0)] laffey2024 None
     = Inr \<lparr>totalBilled = Num 4000, totalLaffey = Num 4920, difference = Num 920,
            isUnderLaffey = True,
            byAttorney = [\<lparr>r_attorney = ''A'', r_hours = 10, r_billedRate = Num 400,
                r_laffeyRate = Some 492, r_billedAmount = Num 4000, r_laffeyAmount = Num 4920\<rparr>]\<rparr>"
  by (simp add: run)

subsection \<open>An entry with zero hours\<close>

text \<open>
  C5. The claim: an entry with zero hours for an attorney who has an aggregate never
  divides by zero and leaves rate and hours unchanged, also when the accumulated hours
  are zero. The code does so while the accumulated hours are not zero (lemma
  \<open>zero_hours_noop\<close> above); when they are zero it divides \<open>0\<close> by \<open>0\<close> and the blended
  rate turns from \<open>100\<close> into \<^verbatim>\<open>NaN\<close> (in general, lemma \<open>zero_over_zero\<close>).
\<close>

theorem zero_hours_zero_denominator:
  "aggregate_loop [billing ''A'' 0 100 None] None []
     = [(''A'', \<lparr>d_hours = 0, d_billedRate = Num 100, d_yearsExperience = 5\<rparr>)]
   \<and> aggregate_step (billing ''A'' 0 200 None) None
        [(''A'', \<lparr>d_hours = 0, d_billedRate = Num 100, d_yearsExperience = 5\<rparr>)]
     = [(''A'', \<lparr>d_hours = 0, d_billedRate = NaN, d_yearsExperience = 5\<rparr>)]"
  by (simp add: run)

subsection \<open>Negative hours and negative experience\<close>

text \<open>
  C6, as amended. No input is rejected: on every entry list the calculation returns a
  comparison result and raises nothing. Negative years resolve to \<^verbatim>\<open>tier1to3\<close> and
  its rate, and a single entry yields \<open>totalBilled = hours * rate\<close> and a row with its
  hours, whatever their sign.
\<close>

theorem no_input_rejected:
  "(\<exists>res. calculateLaffeyComparison es m r = Inr res)
     \<and> (y < 0 \<longrightarrow> getLaffeyTier y = ''tier1to3'' \<and> calculateLaffeyRate y m = Inr (tier1to3Rate m))
     \<and> (\<exists>res. calculateLaffeyComparison [e] m r = Inr res
            \<and> totalBilled res = Num (hours e * rate e)
            \<and> map r_hours (byAttorney res) = [hours e])"
  by (simp add: calculateLaffeyComparison_eq Let_def getLaffeyTier_def calculateLaffeyRate_def
        aggregate_step_def row_of_def flip: zero_jsnum_def)

theorem no_input_rejected_witness:
  "(-2::real) < 0 \<and> getLaffeyTier (-2) = ''tier1to3''
     \<and> calculateLaffeyRate (-2) laffey2024 = Inr (Some 402)
     \<and> (\<exists>res. calculateLaffeyComparison [billing ''A'' (-1) 100 (Some (-2))] laffey2024 None = Inr res
            \<and> totalBilled res = Num (-100))"
  using no_input_rejected
    [of "[billing ''A'' (-1) 100 (Some (-2))]" laffey2024 None "-2" "billing ''A'' (-1) 100 (Some (-2))"]
  by auto

text \<open>
  The claim as stated fails: one entry with \<open>-1\<close> hours and \<open>-2\<close> years yields a result
  with negative totals, not \<open>InvalidInput\<close>.
\<close>

theorem negative_entry_accepted:
  "calculateLaffeyComparison [billing ''A'' (-1) 100 (Some (-2))] laffey2024 None
     = Inr \<lparr>totalBilled = Num (-100), totalLaffey = Num (-402), difference = Num (-302),
            isUnderLaffey = False,
            byAttorney = [\<lparr>r_attorney = ''A'', r_hours = -1, r_billedRate = Num 100,
                r_laffeyRate = Some 402, r_billedAmount = Num (-100),
                r_laffeyAmount = Num (-402)\<rparr>]\<rparr>
   \<and> calculateLaffeyComparison [billing ''A'' (-1) 100 (Some (-2))] laffey2024 None
        \<noteq> Inl InvalidInput"
  by (simp add: run)

subsection \<open>A schedule without the rate of the resolved tier\<close>

text \<open>
  C7, as amended. When the schedule lacks the rate of the tier that the first entry of an
  attorney resolves to, rate resolution returns \<^verbatim>\<open>undefined\<close> and raises nothing; the
  comparison still returns a result, in which that attorney's row is present with an
  undefined benchmark rate and a \<^verbatim>\<open>NaN\<close> benchmark amount, \<open>totalLaffey\<close> and
  \<open>difference\<close> are \<^verbatim>\<open>NaN\<close> and \<open>isUnderLaffey\<close> is false.
\<close>

theorem missing_rate_propagates:
  assumes first: "es = pre @ e0 # post" "\<forall>e\<in>set pre. attorney e \<noteq> attorney e0"
    and missing: "tier_field (getLaffeyTier (yearsExp e0 r)) m = None"
  shows "calculateLaffeyRate (yearsExp e0 r) m = Inr None
         \<and> (\<exists>res. calculateLaffeyComparison es m r = Inr res
           \<and> (\<exists>row\<in>set (byAttorney res). r_attorney row = attorney e0
                  \<and> r_laffeyRate row = None \<and> r_laffeyAmount row = NaN)
           \<and> totalLaffey res = NaN \<and> difference res = NaN \<and> \<not> isUnderLaffey res)"
proof -
  define S where "S = aggregate_loop es r []"
  have undef: "calculateLaffeyRate (yearsExp e0 r) m = Inr None"
    using missing by (simp add: calculateLaffeyRate_tier_field)
  have "List.find (\<lambda>e. attorney e = attorney e0) es = Some e0"
    using first by (simp add: find_first)
  then obtain d where d: "map_of S (attorney e0) = Some d" "d_yearsExperience d = yearsExp e0 r"
    using stored_first unfolding S_def by blast
  have mem: "(attorney e0, d) \<in> set S" using d(1) by (rule map_of_SomeD)
  have row: "r_attorney (row_of m (attorney e0, d)) = attorney e0
      \<and> r_laffeyRate (row_of m (attorney e0, d)) = None
      \<and> r_laffeyAmount (row_of m (attorney e0, d)) = NaN"
    by (simp add: row_of_def d(2) undef)
  have "NaN \<in> set (map (\<lambda>p. r_laffeyAmount (row_of m p)) S)"
    using mem row by force
  then have tot: "sum_list (map (\<lambda>p. r_laffeyAmount (row_of m p)) S) = NaN"
    by (rule sum_list_NaN)
  show ?thesis
    using mem row tot undef
    by (auto simp: calculateLaffeyComparison_eq Let_def comp_def jsub_def jle_NaN_right
          simp flip: S_def intro!: bexI [of _ "(attorney e0, d)"])
qed

theorem missing_rate_propagates_witness:
  "\<exists>res. calculateLaffeyComparison
            [billing ''B'' 1 600 (Some 9), billing ''A'' 2 400 (Some 2), billing ''A'' 1 430 (Some 30)]
            (laffey2024\<lparr>tier1to3Rate := None\<rparr>) None = Inr res
         \<and> totalLaffey res = NaN \<and> difference res = NaN \<and> \<not> isUnderLaffey res"
  using missing_rate_propagates
    [of "[billing ''B'' 1 600 (Some 9), billing ''A'' 2 400 (Some 2), billing ''A'' 1 430 (Some 30)]"
        "[billing ''B'' 1 600 (Some 9)]" "billing ''A'' 2 400 (Some 2)"
        "[billing ''A'' 1 430 (Some 30)]" None "laffey2024\<lparr>tier1to3Rate := None\<rparr>"]
  by (auto simp: yearsExp_def getLaffeyTier_def tier_field_def)

text \<open>
  The claim as stated fails: with \<open>tier1to3Rate\<close> missing, resolving 2 years returns
  \<^verbatim>\<open>undefined\<close>, not \<open>IncompleteSchedule\<close>, and the comparison returns a result.
\<close>

theorem missing_rate_returns_undefined:
  "calculateLaffeyRate 2 (laffey2024\<lparr>tier1to3Rate := None\<rparr>) = Inr None
   \<and> calculateLaffeyRate 2 (laffey2024\<lparr>tier1to3Rate := None\<rparr>) \<noteq> Inl IncompleteSchedule
   \<and> calculateLaffeyComparison [billing ''A'' 1 100 (Some 2)]
        (laffey2024\<lparr>tier1to3Rate := None\<rparr>) None
      = Inr \<lparr>totalBilled = Num 100, totalLaffey = NaN, difference = NaN, isUnderLaffey = False,
             byAttorney = [\<lparr>r_attorney = ''A'', r_hours = 1, r_billedRate = Num 100,
                 r_laffeyRate = None, r_billedAmount = Num 100, r_laffeyAmount = NaN\<rparr>]\<rparr>"
  by (simp add: run)

subsection \<open>The order of the entries\<close>

text \<open>
  C8, as amended. For every entry list whose hours are all strictly positive and in which
  the entries of one attorney all resolve to the same years of experience, and for every
  permutation of it, the comparison has the same rows up to their order (each attorney's
  hours, blended rate, benchmark rate and amounts), the same \<open>totalBilled\<close>,
  \<open>totalLaffey\<close> and \<open>difference\<close>, and the same flag.
\<close>

theorem permutation_invariance:
  assumes "mset es' = mset es"
    and "\<forall>e\<in>set es. 0 < hours e"
    and "\<forall>e\<in>set es. \<forall>e'\<in>set es. attorney e = attorney e' \<longrightarrow> yearsExp e r = yearsExp e' r"
  shows "\<exists>res res'. calculateLaffeyComparison es m r = Inr res
           \<and> calculateLaffeyComparison es' m r = Inr res'
           \<and> set (byAttorney res') = set (byAttorney res)
           \<and> totalBilled res' = totalBilled res
           \<and> totalLaffey res' = totalLaffey res
           \<and> difference res' = difference res
           \<and> isUnderLaffey res' = isUnderLaffey res"
proof -
  have S: "set (aggregate_loop es' r []) = set (aggregate_loop es r [])"
    using assms by (rule aggregate_perm)
  have sums: "sum_list (map g (aggregate_loop es' r [])) = sum_list (map g (aggregate_loop es r []))"
    for g :: "string \<times> AttorneyData \<Rightarrow> jsnum"
    using S by (intro sum_list_set_eq distinct_aggregate)
  show ?thesis
    by (simp add: calculateLaffeyComparison_eq Let_def comp_def S sums)
qed

theorem permutation_invariance_witness:
  "\<exists>res res'.
      calculateLaffeyComparison
        [billing ''A'' 2 400 (Some 2), billing ''B'' 1 600 (Some 9), billing ''A'' 1 430 (Some 2)]
        laffey2024 None = Inr res
    \<and> calculateLaffeyComparison
        [billing ''B'' 1 600 (Some 9), billing ''A'' 1 430 (Some 2), billing ''A'' 2 400 (Some 2)]
        laffey2024 None = Inr res'
    \<and> set (byAttorney res') = set (byAttorney res)
    \<and> totalBilled res' = totalBilled res \<and> totalLaffey res' = totalLaffey res
    \<and> difference res' = difference res \<and> isUnderLaffey res' = isUnderLaffey res"
  using permutation_invariance
    [of "[billing ''B'' 1 600 (Some 9), billing ''A'' 1 430 (Some 2), billing ''A'' 2 400 (Some 2)]"
        "[billing ''A'' 2 400 (Some 2), billing ''B'' 1 600 (Some 9), billing ''A'' 1 430 (Some 2)]"
        None laffey2024]
  by (simp add: yearsExp_def)

text \<open>
  The claim as stated fails: the years stored for an attorney are those of the first
  entry, so swapping two entries of one attorney that carry 2 and 25 years changes the
  benchmark rate from 402 to 822 and \<open>totalLaffey\<close> from 804 to 1644.
\<close>

theorem permutation_changes_benchmark:
  "mset [billing ''A'' 1 400 (Some 25), billing ''A'' 1 400 (Some 2)]
     = mset [billing ''A'' 1 400 (Some 2), billing ''A'' 1 400 (Some 25)]
   \<and> calculateLaffeyComparison
        [billing ''A'' 1 400 (Some 2), billing ''A'' 1 400 (Some 25)] laffey2024 None
      = Inr \<lparr>totalBilled = Num 800, totalLaffey = Num 804, difference = Num 4,
             isUnderLaffey = True,
             byAttorney = [\<lparr>r_attorney = ''A'', r_hours = 2, r_billedRate = Num 400,
                 r_laffeyRate = Some 402, r_billedAmount = Num 800, r_laffeyAmount = Num 804\<rparr>]\<rparr>
   \<and> calculateLaffeyComparison
        [billing ''A'' 1 400 (Some 25), billing ''A'' 1 400 (Some 2)] laffey2024 None
      = Inr \<lparr>totalBilled = Num 800, totalLaffey = Num 1644, difference = Num 844,
             isUnderLaffey = True,
             byAttorney = [\<lparr>r_attorney = ''A'', r_hours = 2, r_billedRate = Num 400,
                 r_laffeyRate = Some 822, r_billedAmount = Num 800, r_laffeyAmount = Num 1644\<rparr>]\<rparr>"
  by (simp add: run)

text \<open>
  Entries with zero hours are outside the amended statement: where two of them open an
  attorney's entries the rate is \<^verbatim>\<open>NaN\<close>, and it is a number when an entry with
  positive hours comes first.
\<close>

lemma zero_hours_order_matters:
  "map (\<lambda>p. d_billedRate (snd p))
      (aggregate_loop [billing ''A'' 0 100 None, billing ''A'' 0 200 None, billing ''A'' 1 300 None]
         None []) = [NaN]
   \<and> map (\<lambda>p. d_billedRate (snd p))
      (aggregate_loop [billing ''A'' 1 300 None, billing ''A'' 0 100 None, billing ''A'' 0 200 None]
         None []) = [Num 300]"
  by (simp add: run)

subsection \<open>The empty entry list\<close>

text \<open>
  C9. On the empty entry list the calculation raises nothing and returns the result with
  \<open>totalBilled = 0\<close>, \<open>totalLaffey = 0\<close>, \<open>difference = 0\<close>, \<open>isUnderLaffey\<close> true and
  an empty per-attorney breakdown.
\<close>

theorem empty_entries:
  "calculateLaffeyComparison [] m r =
     Inr \<lparr>totalBilled = Num 0, totalLaffey = Num 0, difference = Num 0,
          isUnderLaffey = True, byAttorney = []\<rparr>"
  by (simp add: calculateLaffeyComparison_def jsub_def)

subsection \<open>The first entry of an attorney decides the benchmark\<close>



end
